theory Spec2Isabelle
  imports Main
begin

section \<open>Data model (server.js, SCHEMAS)\<close>

text \<open>
  The backend keeps four Mongoose collections. A document is a record, a collection is the
  list of its documents in insertion order, and the store is the four collections. Object
  ids are natural numbers. Fields of type \<open>Number\<close> range over a type \<open>'n\<close> of which the
  handlers only use \<open>0\<close> and \<open>+\<close> (\<open>default: 0\<close> and \<open>$inc\<close>); no law of arithmetic is assumed
  of it, so no result below depends on addition being associative or exact. Strings of the
  request body stay strings: the role and the status are compared with string literals in
  the source, and \<open>findByIdAndUpdate\<close> stores them without running the enum validators.
\<close>

type_synonym ObjectId = nat

record User =
  user_id :: ObjectId
  name :: string
  email :: string
  password :: string
  role :: string

record 'n LoanOffer =
  offer_id :: ObjectId
  lenderId :: ObjectId
  offer_amount :: 'n
  interestRate :: 'n
  maxTermMonths :: 'n
  isActive :: bool

record 'n LoanApplication =
  app_id :: ObjectId
  borrowerId :: ObjectId
  loanOfferId :: ObjectId
  nationalId :: string
  monthlySalary :: 'n
  reason :: string
  status :: string

record 'n PaymentEntry =
  date :: nat
  amount :: 'n

record 'n LoanPayment =
  payment_id :: ObjectId
  applicationId :: ObjectId
  amountPaid :: 'n
  payments :: "'n PaymentEntry list"

record 'n Store =
  users :: "User list"
  loanOffers :: "'n LoanOffer list"
  loanApplications :: "'n LoanApplication list"
  loanPayments :: "'n LoanPayment list"

definition emptyStore :: "'n Store" where
  "emptyStore = \<lparr>users = [], loanOffers = [], loanApplications = [], loanPayments = []\<rparr>"

text \<open>
  The HTTP status of a failed request: 401, 403, 404, 400 and 500 in the source.
\<close>

datatype error = Unauthorized | Forbidden | NotFound | Validation | Internal

text \<open>The payload that \<open>jwt.sign\<close> packs at login and \<open>jwt.verify\<close> returns as \<open>req.user\<close>.\<close>

record TokenPayload =
  tok_id :: ObjectId
  tok_email :: string
  tok_role :: string

text \<open>
  \<open>authenticate\<close>: the argument is what the middleware gets out of the Authorization
  header, \<open>None\<close> when the token is missing or \<open>jwt.verify\<close> throws.
\<close>

definition authenticate :: "TokenPayload option \<Rightarrow> error + TokenPayload" where
  "authenticate tok = (case tok of None \<Rightarrow> Inl Unauthorized | Some decoded \<Rightarrow> Inr decoded)"

text \<open>
  \<open>Model.findOneAndUpdate(filter, update, {new: true})\<close> and \<open>findByIdAndUpdate\<close>: the first
  document that matches is updated in place and returned as updated; \<open>null\<close> and an untouched
  collection when none matches.
\<close>

fun findOneAndUpdate :: "('d \<Rightarrow> bool) \<Rightarrow> ('d \<Rightarrow> 'd) \<Rightarrow> 'd list \<Rightarrow> 'd option \<times> 'd list" where
  "findOneAndUpdate P f [] = (None, [])"
| "findOneAndUpdate P f (d # ds) =
     (if P d then (Some (f d), f d # ds)
      else (fst (findOneAndUpdate P f ds), d # snd (findOneAndUpdate P f ds)))"

text \<open>\<open>Model.findByIdAndDelete\<close>: the first matching document is removed.\<close>

fun findOneAndDelete :: "('d \<Rightarrow> bool) \<Rightarrow> 'd list \<Rightarrow> 'd list" where
  "findOneAndDelete P [] = []"
| "findOneAndDelete P (d # ds) = (if P d then ds else d # findOneAndDelete P ds)"

section \<open>Credit scoring\<close>

text \<open>
  \<open>calculateCreditScore\<close> (admin routes). Its argument is an object with the two properties
  \<open>applications\<close> and \<open>payments\<close>; a missing property is \<open>None\<close>. Arrays are truthy in
  JavaScript, also when empty, hence the separate test of the length.
\<close>

record 'n BorrowerData =
  b_applications :: "'n LoanApplication list option"
  b_payments :: "'n LoanPayment list option"

definition calculateCreditScore :: "'n BorrowerData \<Rightarrow> int" where
  "calculateCreditScore borrower =
     (let score = 700;
          score = (case b_payments borrower of
                     None \<Rightarrow> score
                   | Some ps \<Rightarrow>
                       if length ps > 0
                       then (let totalPayments =
                                   foldl (\<lambda>sum p. sum + int (length (payments p))) 0 ps
                             in score + totalPayments * 5)
                       else score);
          score = (case b_applications borrower of
                     None \<Rightarrow> score
                   | Some as \<Rightarrow>
                       if length as > 0
                       then (let approvedLoans =
                                   int (length (filter (\<lambda>a. status a = ''approved'') as))
                             in score + approvedLoans * 20)
                       else score)
      in min (max score 300) 850)"

text \<open>
  The scoring of \<open>GET /api/borrower/credit-score\<close>. It reads a \<open>status\<close> property off every
  element of \<open>borrower.payments\<close>; an element without the property has \<open>None\<close> there, and
  \<open>undefined === 'ontime'\<close> is false.
\<close>

record ScoredPayment =
  pay_status :: "string option"

definition scoreForBorrower :: "ScoredPayment list option \<Rightarrow> int" where
  "scoreForBorrower borrower_payments =
     (let score = 650;
          score = (case borrower_payments of
                     None \<Rightarrow> score
                   | Some ps \<Rightarrow>
                       (let onTimePayments =
                              int (length (filter (\<lambda>p. pay_status p = Some ''ontime'') ps))
                        in score + onTimePayments * 5));
          score = (case borrower_payments of
                     None \<Rightarrow> score
                   | Some ps \<Rightarrow>
                       (let latePayments =
                              int (length (filter (\<lambda>p. pay_status p = Some ''late'') ps))
                        in score - latePayments * 10))
      in max 300 (min score 850))"

section \<open>Authentication routes\<close>

text \<open>
  Mongoose validates a document against its schema in \<open>save\<close>: a required string must be
  non-empty and an enum field must hold one of the listed values. A failed validation
  throws, and the handler's \<open>catch\<close> answers 500.
\<close>

definition validUser :: "User \<Rightarrow> bool" where
  "validUser u \<longleftrightarrow>
     name u \<noteq> [] \<and> email u \<noteq> [] \<and> password u \<noteq> [] \<and>
     role u \<in> set [''borrower'', ''lender'', ''admin'']"

text \<open>
  \<open>POST /api/register\<close>. \<open>bcrypt_hash\<close> stands for \<open>bcrypt.hash(_, 10)\<close> and \<open>newId\<close> for the
  object id Mongoose gives the new document. A field that is missing from the request
  body is the empty string, which \<open>!\<close> treats like \<open>undefined\<close>.
\<close>

definition register ::
  "(string \<Rightarrow> string) \<Rightarrow> ObjectId \<Rightarrow> string \<Rightarrow> string \<Rightarrow> string \<Rightarrow> string \<Rightarrow> 'n Store
     \<Rightarrow> error + 'n Store" where
  "register bcrypt_hash newId name' email' password' role' s =
     (if name' = [] \<or> email' = [] \<or> password' = [] \<or> role' = [] then Inl Validation
      else (case find (\<lambda>u. email u = email') (users s) of
              Some existingUser \<Rightarrow> Inl Validation
            | None \<Rightarrow>
                (let hashedPassword = bcrypt_hash password';
                     newUser = \<lparr>user_id = newId, name = name', email = email',
                                password = hashedPassword, role = role'\<rparr>
                 in if validUser newUser then Inr (s\<lparr>users := users s @ [newUser]\<rparr>)
                    else Inl Internal)))"

record LoginUser =
  login_name :: string
  login_email :: string
  login_role :: string

record LoginResponse =
  token :: string
  user :: LoginUser

text \<open>
  \<open>POST /api/login\<close>. \<open>bcrypt_compare\<close> stands for \<open>bcrypt.compare\<close> and \<open>jwt_sign\<close> for
  \<open>jwt.sign\<close> with the server's secret.
\<close>

definition login ::
  "(string \<Rightarrow> string \<Rightarrow> bool) \<Rightarrow> (TokenPayload \<Rightarrow> string) \<Rightarrow> string \<Rightarrow> string \<Rightarrow> string
     \<Rightarrow> 'n Store \<Rightarrow> error + LoginResponse" where
  "login bcrypt_compare jwt_sign email' password' role' s =
     (case find (\<lambda>u. email u = email' \<and> role u = role') (users s) of
        None \<Rightarrow> Inl Validation
      | Some u \<Rightarrow>
          (let isPasswordValid = bcrypt_compare password' (password u)
           in if \<not> isPasswordValid then Inl Validation
              else Inr \<lparr>token = jwt_sign \<lparr>tok_id = user_id u, tok_email = email u,
                                          tok_role = role u\<rparr>,
                        user = \<lparr>login_name = name u, login_email = email u,
                                login_role = role u\<rparr>\<rparr>))"

section \<open>Lender routes\<close>

text \<open>\<open>POST /api/lender/loan-offers\<close>; \<open>isActive\<close> takes its default.\<close>

definition createOffer ::
  "TokenPayload option \<Rightarrow> ObjectId \<Rightarrow> 'n \<Rightarrow> 'n \<Rightarrow> 'n \<Rightarrow> 'n Store
     \<Rightarrow> error + 'n LoanOffer \<times> 'n Store" where
  "createOffer tok newId amount' interestRate' maxTermMonths' s =
     (case authenticate tok of
        Inl e \<Rightarrow> Inl e
      | Inr req_user \<Rightarrow>
          if tok_role req_user \<noteq> ''lender'' then Inl Forbidden
          else (let newOffer = \<lparr>offer_id = newId, lenderId = tok_id req_user,
                                 offer_amount = amount', interestRate = interestRate',
                                 maxTermMonths = maxTermMonths', isActive = True\<rparr>
                in Inr (newOffer, s\<lparr>loanOffers := loanOffers s @ [newOffer]\<rparr>)))"

text \<open>
  \<open>PATCH /api/lender/applications/:id\<close>. \<open>populate('loanOfferId')\<close> replaces the reference by
  the offer document, or by \<open>null\<close> when no offer has that id; in the approved branch the
  handler then reads \<open>appToUpdate.loanOfferId._id\<close>, which throws on \<open>null\<close> before anything
  was written. \<open>LoanPayment.create\<close> fills \<open>amountPaid\<close> and \<open>payments\<close> with the schema's
  defaults. The status of the request body is written as it is.
\<close>

definition setApplicationStatus ::
  "TokenPayload option \<Rightarrow> ObjectId \<Rightarrow> ObjectId \<Rightarrow> string \<Rightarrow> ('n::zero) Store
     \<Rightarrow> error + 'n LoanApplication option \<times> 'n Store" where
  "setApplicationStatus tok newId id' status' s =
     (case authenticate tok of
        Inl e \<Rightarrow> Inl e
      | Inr req_user \<Rightarrow>
          if tok_role req_user \<noteq> ''lender'' then Inl Forbidden
          else (case find (\<lambda>a. app_id a = id') (loanApplications s) of
                  None \<Rightarrow> Inl NotFound
                | Some appToUpdate \<Rightarrow>
                    (case (if status' = ''approved''
                           then (case find (\<lambda>x. offer_id x = loanOfferId appToUpdate)
                                        (loanOffers s) of
                                   None \<Rightarrow> Inl Internal
                                 | Some populated \<Rightarrow>
                                     (let s1 = s\<lparr>loanOffers :=
                                                   snd (findOneAndUpdate
                                                          (\<lambda>x. offer_id x = offer_id populated)
                                                          (\<lambda>x. x\<lparr>isActive := False\<rparr>)
                                                          (loanOffers s))\<rparr>;
                                          existingPayment =
                                            find (\<lambda>p. applicationId p = id') (loanPayments s1)
                                      in if existingPayment = None
                                         then Inr (s1\<lparr>loanPayments := loanPayments s1 @
                                                      [\<lparr>payment_id = newId, applicationId = id',
                                                        amountPaid = 0, payments = []\<rparr>]\<rparr>)
                                         else Inr s1))
                           else Inr s) of
                       Inl e \<Rightarrow> Inl e
                     | Inr s2 \<Rightarrow>
                         (case findOneAndUpdate (\<lambda>a. app_id a = id')
                                 (\<lambda>a. a\<lparr>status := status'\<rparr>) (loanApplications s2) of
                            (updatedApp, apps) \<Rightarrow>
                              Inr (updatedApp, s2\<lparr>loanApplications := apps\<rparr>)))))"

section \<open>Borrower routes\<close>

definition validApplication :: "'n LoanApplication \<Rightarrow> bool" where
  "validApplication a \<longleftrightarrow>
     nationalId a \<noteq> [] \<and> reason a \<noteq> [] \<and>
     status a \<in> set [''pending'', ''approved'', ''rejected'']"

text \<open>
  \<open>POST /api/borrower/applications\<close>; the status takes its default. The offer id comes from
  the request body and is not looked up.
\<close>

definition createApplication ::
  "TokenPayload option \<Rightarrow> ObjectId \<Rightarrow> ObjectId \<Rightarrow> string \<Rightarrow> 'n \<Rightarrow> string \<Rightarrow> 'n Store
     \<Rightarrow> error + 'n LoanApplication \<times> 'n Store" where
  "createApplication tok newId loanOfferId' nationalId' monthlySalary' reason' s =
     (case authenticate tok of
        Inl e \<Rightarrow> Inl e
      | Inr req_user \<Rightarrow>
          if tok_role req_user \<noteq> ''borrower'' then Inl Forbidden
          else (let newApp = \<lparr>app_id = newId, borrowerId = tok_id req_user,
                               loanOfferId = loanOfferId', nationalId = nationalId',
                               monthlySalary = monthlySalary', reason = reason',
                               status = ''pending''\<rparr>
                in if validApplication newApp
                   then Inr (newApp, s\<lparr>loanApplications := loanApplications s @ [newApp]\<rparr>)
                   else Inl Internal))"

text \<open>
  \<open>POST /api/borrower/payments/:applicationId\<close>. \<open>now\<close> is the value of \<open>Date.now\<close> that the
  schema's default puts into the pushed entry. The handler sends whatever
  \<open>findOneAndUpdate\<close> returned, \<open>null\<close> included, with status 200.
\<close>

definition recordPayment ::
  "TokenPayload option \<Rightarrow> nat \<Rightarrow> ObjectId \<Rightarrow> 'n \<Rightarrow> ('n::plus) Store
     \<Rightarrow> error + 'n LoanPayment option \<times> 'n Store" where
  "recordPayment tok now applicationId' amount' s =
     (case authenticate tok of
        Inl e \<Rightarrow> Inl e
      | Inr req_user \<Rightarrow>
          if tok_role req_user \<noteq> ''borrower'' then Inl Forbidden
          else (case findOneAndUpdate (\<lambda>p. applicationId p = applicationId')
                       (\<lambda>p. p\<lparr>amountPaid := amountPaid p + amount',
                               payments := payments p @ [\<lparr>date = now, amount = amount'\<rparr>]\<rparr>)
                       (loanPayments s) of
                  (payment, ps) \<Rightarrow> Inr (payment, s\<lparr>loanPayments := ps\<rparr>)))"

section \<open>Admin routes\<close>

text \<open>A user document under the projections \<open>{password: 0}\<close> and \<open>select('-password')\<close>.\<close>

record UserView =
  view_id :: ObjectId
  view_name :: string
  view_email :: string
  view_role :: string

definition withoutPassword :: "User \<Rightarrow> UserView" where
  "withoutPassword u =
     \<lparr>view_id = user_id u, view_name = name u, view_email = email u, view_role = role u\<rparr>"

text \<open>\<open>GET /api/admin/users\<close>.\<close>

definition listUsers :: "TokenPayload option \<Rightarrow> 'n Store \<Rightarrow> error + UserView list" where
  "listUsers tok s =
     (case authenticate tok of
        Inl e \<Rightarrow> Inl e
      | Inr req_user \<Rightarrow>
          if tok_role req_user \<noteq> ''admin'' then Inl Forbidden
          else Inr (map withoutPassword (users s)))"

text \<open>
  \<open>GET /api/admin/borrowers\<close>. A populated document is the document paired with the one its
  reference points to, \<open>None\<close> for \<open>null\<close>. \<open>calculateCreditScore\<close> reads \<open>status\<close> and
  \<open>payments\<close> only, which populating leaves as they are.
\<close>

record 'n BorrowerView =
  bv_user :: UserView
  bv_applications :: "('n LoanApplication \<times> 'n LoanOffer option) list"
  bv_payments :: "('n LoanPayment \<times> 'n LoanApplication option) list"
  creditScore :: int

definition listBorrowers :: "TokenPayload option \<Rightarrow> 'n Store \<Rightarrow> error + 'n BorrowerView list" where
  "listBorrowers tok s =
     (case authenticate tok of
        Inl e \<Rightarrow> Inl e
      | Inr req_user \<Rightarrow>
          if tok_role req_user \<noteq> ''admin'' then Inl Forbidden
          else
            (let borrowers = map withoutPassword (filter (\<lambda>u. role u = ''borrower'') (users s));
                 borrowerIds = map view_id borrowers;
                 applications =
                   map (\<lambda>a. (a, find (\<lambda>x. offer_id x = loanOfferId a) (loanOffers s)))
                     (filter (\<lambda>a. borrowerId a \<in> set borrowerIds) (loanApplications s));
                 payments' =
                   map (\<lambda>p. (p, find (\<lambda>a. app_id a = applicationId p) (loanApplications s)))
                     (loanPayments s)
             in Inr (map (\<lambda>borrower.
                       (let borrowerApps =
                              filter (\<lambda>a. borrowerId (fst a) = view_id borrower) applications;
                            borrowerPayments =
                              filter (\<lambda>p. list_ex (\<lambda>a. (case snd p of
                                                           None \<Rightarrow> False
                                                         | Some pa \<Rightarrow> app_id (fst a) = app_id pa))
                                             borrowerApps)
                                payments'
                        in \<lparr>bv_user = borrower, bv_applications = borrowerApps,
                            bv_payments = borrowerPayments,
                            creditScore = calculateCreditScore
                              \<lparr>b_applications = Some (map fst borrowerApps),
                               b_payments = Some (map fst borrowerPayments)\<rparr>\<rparr>))
                     borrowers)))"

text \<open>
  \<open>DELETE /api/admin/users/:id\<close>. \<open>req.params.id\<close> is the path segment as the client
  spelled it, and \<open>req.user.id\<close> the string that the user's object id became in the token,
  here \<open>hexString\<close> of the id. The guard against deleting oneself compares these two
  strings; only \<open>findByIdAndDelete\<close> casts the path segment to an object id
  (\<open>castObjectId\<close>, \<open>None\<close> when the cast throws, answered with 500). A second spelling
  that casts to the caller's own id therefore passes the guard.
\<close>

definition deleteUser ::
  "(ObjectId \<Rightarrow> string) \<Rightarrow> (string \<Rightarrow> ObjectId option) \<Rightarrow> TokenPayload option \<Rightarrow> string
     \<Rightarrow> 'n Store \<Rightarrow> error + 'n Store" where
  "deleteUser hexString castObjectId tok id' s =
     (case authenticate tok of
        Inl e \<Rightarrow> Inl e
      | Inr req_user \<Rightarrow>
          if tok_role req_user \<noteq> ''admin'' then Inl Forbidden
          else if id' = hexString (tok_id req_user) then Inl Validation
          else (case castObjectId id' of
                  None \<Rightarrow> Inl Internal
                | Some i \<Rightarrow>
                    Inr (s\<lparr>users := findOneAndDelete (\<lambda>u. user_id u = i) (users s)\<rparr>)))"

text \<open>\<open>PATCH /api/admin/users/:id/role\<close>; the response is \<open>null\<close> when no user has the id.\<close>

definition setUserRole ::
  "TokenPayload option \<Rightarrow> ObjectId \<Rightarrow> string \<Rightarrow> 'n Store \<Rightarrow> error + UserView option \<times> 'n Store" where
  "setUserRole tok id' role' s =
     (case authenticate tok of
        Inl e \<Rightarrow> Inl e
      | Inr req_user \<Rightarrow>
          if tok_role req_user \<noteq> ''admin'' then Inl Forbidden
          else (case findOneAndUpdate (\<lambda>u. user_id u = id') (\<lambda>u. u\<lparr>role := role'\<rparr>) (users s) of
                  (updated, us) \<Rightarrow> Inr (map_option withoutPassword updated, s\<lparr>users := us\<rparr>)))"

section \<open>Sequences of requests\<close>

text \<open>
  The requests that write to the store, with what the environment supplies to each (the
  token's payload, the new object id, the clock, the hash function, the rendering and the
  cast of object ids). \<open>handle\<close> gives the store after a request;
  a request that fails has written nothing. The read-only routes leave the store alone.
\<close>

datatype 'n request =
    Register "string \<Rightarrow> string" ObjectId string string string string
  | CreateOffer "TokenPayload option" ObjectId 'n 'n 'n
  | CreateApplication "TokenPayload option" ObjectId ObjectId string 'n string
  | SetApplicationStatus "TokenPayload option" ObjectId ObjectId string
  | RecordPayment "TokenPayload option" nat ObjectId 'n
  | DeleteUser "ObjectId \<Rightarrow> string" "string \<Rightarrow> ObjectId option" "TokenPayload option" string
  | SetUserRole "TokenPayload option" ObjectId string

definition stored :: "'s \<Rightarrow> error + 'r \<times> 's \<Rightarrow> 's" where
  "stored s res = (case res of Inl e \<Rightarrow> s | Inr (r, s') \<Rightarrow> s')"

fun handle :: "('n::{zero,plus}) request \<Rightarrow> 'n Store \<Rightarrow> 'n Store" where
  "handle (Register h i n e p r) s = (case register h i n e p r s of Inl x \<Rightarrow> s | Inr s' \<Rightarrow> s')"
| "handle (CreateOffer t i a r m) s = stored s (createOffer t i a r m s)"
| "handle (CreateApplication t i l n m r) s = stored s (createApplication t i l n m r s)"
| "handle (SetApplicationStatus t i a st) s = stored s (setApplicationStatus t i a st s)"
| "handle (RecordPayment t now a m) s = stored s (recordPayment t now a m s)"
| "handle (DeleteUser h c t i) s = (case deleteUser h c t i s of Inl x \<Rightarrow> s | Inr s' \<Rightarrow> s')"
| "handle (SetUserRole t i r) s = stored s (setUserRole t i r s)"

definition run :: "('n::{zero,plus}) request list \<Rightarrow> 'n Store \<Rightarrow> 'n Store" where
  "run reqs s = foldl (\<lambda>s' r. handle r s') s reqs"

text \<open>The ledger invariant of a payment record: the total is the left-to-right sum of its entries.\<close>

definition ledgerOk :: "('n::{zero,plus}) LoanPayment \<Rightarrow> bool" where
  "ledgerOk p \<longleftrightarrow> amountPaid p = foldl (+) 0 (map amount (payments p))"

text \<open>Two stores that differ at most in the stored password hashes.\<close>

definition hidePassword :: "User \<Rightarrow> User" where
  "hidePassword u = u\<lparr>password := []\<rparr>"

definition samePublicData :: "'n Store \<Rightarrow> 'n Store \<Rightarrow> bool" where
  "samePublicData s t \<longleftrightarrow>
     map hidePassword (users s) = map hidePassword (users t) \<and>
     loanOffers s = loanOffers t \<and> loanApplications s = loanApplications t \<and>
     loanPayments s = loanPayments t"

section \<open>Example data\<close>

text \<open>
  A small store with amounts in \<open>int\<close>: a borrower, a lender and an admin, one offer of the
  lender and one pending application of the borrower against it; and the token payloads of
  the three users and of a second borrower who owns nothing.
\<close>

definition borrowerTok :: TokenPayload where
  "borrowerTok = \<lparr>tok_id = 1, tok_email = ''bo@x.org'', tok_role = ''borrower''\<rparr>"

definition otherBorrowerTok :: TokenPayload where
  "otherBorrowerTok = \<lparr>tok_id = 4, tok_email = ''ot@x.org'', tok_role = ''borrower''\<rparr>"

definition lenderTok :: TokenPayload where
  "lenderTok = \<lparr>tok_id = 2, tok_email = ''le@x.org'', tok_role = ''lender''\<rparr>"

definition adminTok :: TokenPayload where
  "adminTok = \<lparr>tok_id = 3, tok_email = ''ad@x.org'', tok_role = ''admin''\<rparr>"

definition exampleUsers :: "string \<Rightarrow> User list" where
  "exampleUsers pw =
     [\<lparr>user_id = 1, name = ''Bo'', email = ''bo@x.org'', password = pw, role = ''borrower''\<rparr>,
      \<lparr>user_id = 2, name = ''Le'', email = ''le@x.org'', password = ''h2'', role = ''lender''\<rparr>,
      \<lparr>user_id = 3, name = ''Ad'', email = ''ad@x.org'', password = ''h3'', role = ''admin''\<rparr>]"

definition exampleOffer :: "int LoanOffer" where
  "exampleOffer = \<lparr>offer_id = 10, lenderId = 2, offer_amount = 1000, interestRate = 5,
                    maxTermMonths = 12, isActive = True\<rparr>"

definition exampleApplication :: "int LoanApplication" where
  "exampleApplication = \<lparr>app_id = 20, borrowerId = 1, loanOfferId = 10, nationalId = ''N1'',
                          monthlySalary = 300, reason = ''car'', status = ''pending''\<rparr>"

definition exampleStore :: "int Store" where
  "exampleStore = \<lparr>users = exampleUsers ''h1'', loanOffers = [exampleOffer],
                    loanApplications = [exampleApplication], loanPayments = []\<rparr>"

definition freshPayment :: "int LoanPayment" where
  "freshPayment = \<lparr>payment_id = 30, applicationId = 20, amountPaid = 0, payments = []\<rparr>"


section \<open>Properties of the scorers\<close>

lemma foldl_count_entries:
  "foldl (\<lambda>sum p. sum + int (length (payments p))) k ps
     = k + (\<Sum>p\<leftarrow>ps. int (length (payments p)))"
  by (induction ps arbitrary: k) simp_all

lemma length_filter_count_list: "length (filter (\<lambda>x. f x = v) xs) = count_list (map f xs) v"
  by (induction xs) simp_all

text \<open>
  Claim C1. On the two collections the admin view passes to it, \<open>calculateCreditScore\<close> is
  700, plus 5 for every entry of every payment record, plus 20 for every application whose
  status is \<open>approved\<close>, clamped to the interval from 300 to 850. It is 700 on empty
  collections and 755 on three entries and two approved applications.
\<close>

theorem admin_score_formula:
  fixes apps :: "'n LoanApplication list" and pays :: "'n LoanPayment list"
  shows
  "calculateCreditScore \<lparr>b_applications = Some apps, b_payments = Some pays\<rparr>
     = min (max (700 + 5 * (\<Sum>p\<leftarrow>pays. int (length (payments p)))
                     + 20 * int (count_list (map status apps) ''approved'')) 300) 850
   \<and> calculateCreditScore
         \<lparr>b_applications = Some ([] :: 'n LoanApplication list), b_payments = Some []\<rparr> = 700
   \<and> ((\<Sum>p\<leftarrow>pays. length (payments p)) = 3 \<and> count_list (map status apps) ''approved'' = 2
        \<longrightarrow> calculateCreditScore \<lparr>b_applications = Some apps, b_payments = Some pays\<rparr> = 755)"
proof -
  have general: "calculateCreditScore \<lparr>b_applications = Some as, b_payments = Some ps\<rparr>
     = min (max (700 + 5 * (\<Sum>p\<leftarrow>ps. int (length (payments p)))
                     + 20 * int (count_list (map status as) ''approved'')) 300) 850"
    for as :: "'b LoanApplication list" and ps :: "'b LoanPayment list"
    by (cases ps; cases as)
      (simp_all add: calculateCreditScore_def Let_def foldl_count_entries
        length_filter_count_list mult.commute del: foldl_Cons)
  have sum_int: "(\<Sum>p\<leftarrow>pays. int (length (payments p))) = int (\<Sum>p\<leftarrow>pays. length (payments p))"
    by (induction pays) simp_all
  show ?thesis
    by (simp add: general sum_int)
qed

theorem admin_score_formula_witness:
  "(\<Sum>p\<leftarrow>[\<lparr>payment_id = 1, applicationId = 10, amountPaid = (30::int),
              payments = [\<lparr>date = 1, amount = 10\<rparr>, \<lparr>date = 2, amount = 20\<rparr>]\<rparr>,
            \<lparr>payment_id = 2, applicationId = 11, amountPaid = 5,
              payments = [\<lparr>date = 3, amount = 5\<rparr>]\<rparr>]. length (payments p)) = 3
   \<and> count_list (map status
        [\<lparr>app_id = 10, borrowerId = 1, loanOfferId = 5, nationalId = ''n'', monthlySalary = (1::int),
          reason = ''r'', status = ''approved''\<rparr>,
         \<lparr>app_id = 11, borrowerId = 1, loanOfferId = 6, nationalId = ''n'', monthlySalary = 1,
          reason = ''r'', status = ''approved''\<rparr>,
         \<lparr>app_id = 12, borrowerId = 1, loanOfferId = 7, nationalId = ''n'', monthlySalary = 1,
          reason = ''r'', status = ''pending''\<rparr>]) ''approved'' = 2
   \<and> calculateCreditScore
       \<lparr>b_applications = Some
          [\<lparr>app_id = 10, borrowerId = 1, loanOfferId = 5, nationalId = ''n'', monthlySalary = (1::int),
            reason = ''r'', status = ''approved''\<rparr>,
           \<lparr>app_id = 11, borrowerId = 1, loanOfferId = 6, nationalId = ''n'', monthlySalary = 1,
            reason = ''r'', status = ''approved''\<rparr>,
           \<lparr>app_id = 12, borrowerId = 1, loanOfferId = 7, nationalId = ''n'', monthlySalary = 1,
            reason = ''r'', status = ''pending''\<rparr>],
        b_payments = Some
          [\<lparr>payment_id = 1, applicationId = 10, amountPaid = (30::int),
             payments = [\<lparr>date = 1, amount = 10\<rparr>, \<lparr>date = 2, amount = 20\<rparr>]\<rparr>,
           \<lparr>payment_id = 2, applicationId = 11, amountPaid = 5,
             payments = [\<lparr>date = 3, amount = 5\<rparr>]\<rparr>]\<rparr> = 755"
  using admin_score_formula
    [of "[\<lparr>app_id = 10, borrowerId = 1, loanOfferId = 5, nationalId = ''n'', monthlySalary = (1::int),
            reason = ''r'', status = ''approved''\<rparr>,
           \<lparr>app_id = 11, borrowerId = 1, loanOfferId = 6, nationalId = ''n'', monthlySalary = 1,
            reason = ''r'', status = ''approved''\<rparr>,
           \<lparr>app_id = 12, borrowerId = 1, loanOfferId = 7, nationalId = ''n'', monthlySalary = 1,
            reason = ''r'', status = ''pending''\<rparr>]"
        "[\<lparr>payment_id = 1, applicationId = 10, amountPaid = (30::int),
             payments = [\<lparr>date = 1, amount = 10\<rparr>, \<lparr>date = 2, amount = 20\<rparr>]\<rparr>,
           \<lparr>payment_id = 2, applicationId = 11, amountPaid = 5,
             payments = [\<lparr>date = 3, amount = 5\<rparr>]\<rparr>]"]
  by simp

text \<open>
  Claim C5. The borrower view's score is 650, plus 5 for every entry whose status is
  \<open>ontime\<close>, minus 10 for every entry whose status is \<open>late\<close>, clamped to the interval from
  300 to 850; on entries that have no status at all it is exactly 650.
\<close>

theorem borrower_score_formula:
  "scoreForBorrower (Some es)
     = max 300 (min (650 + 5 * int (count_list (map pay_status es) (Some ''ontime''))
                         - 10 * int (count_list (map pay_status es) (Some ''late''))) 850)
   \<and> ((\<forall>e\<in>set es. pay_status e = None) \<longrightarrow> scoreForBorrower (Some es) = 650)"
proof -
  have none: "count_list (map pay_status es) (Some v) = 0" if "\<forall>e\<in>set es. pay_status e = None" for v
    using that by (induction es) simp_all
  have general: "scoreForBorrower (Some es)
     = max 300 (min (650 + 5 * int (count_list (map pay_status es) (Some ''ontime''))
                         - 10 * int (count_list (map pay_status es) (Some ''late''))) 850)"
    by (simp add: scoreForBorrower_def Let_def length_filter_count_list)
  show ?thesis
    using none by (simp add: general)
qed

theorem borrower_score_formula_witness:
  "map pay_status [\<lparr>pay_status = None\<rparr>, \<lparr>pay_status = None\<rparr>] = [None, None]
   \<and> scoreForBorrower (Some [\<lparr>pay_status = None\<rparr>, \<lparr>pay_status = None\<rparr>]) = 650
   \<and> scoreForBorrower (Some [\<lparr>pay_status = Some ''ontime''\<rparr>, \<lparr>pay_status = Some ''late''\<rparr>,
        \<lparr>pay_status = Some ''late''\<rparr>, \<lparr>pay_status = None\<rparr>]) = 635"
  using borrower_score_formula [of "[\<lparr>pay_status = None\<rparr>, \<lparr>pay_status = None\<rparr>]"]
    borrower_score_formula [of "[\<lparr>pay_status = Some ''ontime''\<rparr>, \<lparr>pay_status = Some ''late''\<rparr>,
        \<lparr>pay_status = Some ''late''\<rparr>, \<lparr>pay_status = None\<rparr>]"]
  by simp

section \<open>Facts about the collection primitives\<close>

lemma findOneAndUpdate_fst: "fst (findOneAndUpdate P f xs) = map_option f (find P xs)"
  by (induction xs) simp_all

lemma findOneAndUpdate_none: "find P xs = None \<Longrightarrow> findOneAndUpdate P f xs = (None, xs)"
  by (induction xs) (simp_all split: if_splits)

lemma findOneAndUpdate_length: "length (snd (findOneAndUpdate P f xs)) = length xs"
  by (induction xs) simp_all

lemma findOneAndUpdate_first:
  "find P xs = Some x \<Longrightarrow>
     \<exists>i<length xs. xs ! i = x \<and> P x \<and> (\<forall>j<i. \<not> P (xs ! j)) \<and>
       findOneAndUpdate P f xs = (Some (f x), xs[i := f x])"
proof (induction xs)
  case Nil
  then show ?case by simp
next
  case (Cons y ys)
  show ?case
  proof (cases "P y")
    case True
    with Cons.prems have "y = x" by simp
    with True show ?thesis by (intro exI [of _ 0]) simp
  next
    case False
    with Cons.prems have "find P ys = Some x" by simp
    from Cons.IH [OF this] obtain i where i: "i < length ys" "ys ! i = x" "P x"
      "\<forall>j<i. \<not> P (ys ! j)" "findOneAndUpdate P f ys = (Some (f x), ys[i := f x])"
      by blast
    have "\<forall>j<Suc i. \<not> P ((y # ys) ! j)"
      using False i(4) by (auto simp: less_Suc_eq_0_disj)
    with i False show ?thesis by (intro exI [of _ "Suc i"]) simp
  qed
qed

lemma findOneAndUpdate_find:
  "(\<And>x. P (f x) = P x) \<Longrightarrow> find P (snd (findOneAndUpdate P f xs)) = map_option f (find P xs)"
  by (induction xs) simp_all

lemma findOneAndUpdate_set:
  "set (snd (findOneAndUpdate P f xs)) \<subseteq> set xs \<union> f ` set xs"
  by (induction xs) auto

lemma findOneAndUpdate_map:
  "(\<And>x. Q (g x) = P x) \<Longrightarrow> (\<And>x. g (f x) = f' (g x)) \<Longrightarrow>
     map g (snd (findOneAndUpdate P f xs)) = snd (findOneAndUpdate Q f' (map g xs))"
  by (induction xs) simp_all


lemma find_map_commute: "(\<And>x. Q (g x) = P x) \<Longrightarrow> find Q (map g xs) = map_option g (find P xs)"
  by (induction xs) simp_all


lemma find_Some_holds: "find P xs = Some x \<Longrightarrow> P x \<and> x \<in> set xs"
  by (induction xs) (simp_all split: if_splits)


section \<open>Registration and login\<close>

text \<open>
  Claim C7. When the store holds a user with the email, \<open>register\<close> answers 400 whatever
  the name, the password and the role are, and the store stays as it was.
\<close>

theorem register_duplicate_email:
  assumes "u \<in> set (users s)" and "email u = e"
  shows "register h n nm e pw r s = Inl Validation \<and> handle (Register h n nm e pw r) s = s"
proof -
  from assms have "find (\<lambda>u. email u = e) (users s) \<noteq> None"
    by (auto simp: find_None_iff)
  then have "register h n nm e pw r s = Inl Validation"
    by (auto simp: register_def)
  then show ?thesis by simp
qed

theorem register_duplicate_email_witness:
  "\<lparr>user_id = 1, name = ''Bo'', email = ''bo@x.org'', password = ''h1'', role = ''borrower''\<rparr>
     \<in> set (users exampleStore)
   \<and> register (\<lambda>p. ''#'' @ p) 9 ''Eve'' ''bo@x.org'' ''secret'' ''lender'' exampleStore
       = Inl Validation
   \<and> handle (Register (\<lambda>p. ''#'' @ p) 9 ''Eve'' ''bo@x.org'' ''secret'' ''lender'') exampleStore
       = exampleStore"
proof -
  have h: "\<lparr>user_id = 1, name = ''Bo'', email = ''bo@x.org'', password = ''h1'', role = ''borrower''\<rparr>
     \<in> set (users exampleStore)"
    by (simp add: exampleStore_def exampleUsers_def)
  from register_duplicate_email [OF h, of "''bo@x.org''" "\<lambda>p. ''#'' @ p" 9 "''Eve''" "''secret''" "''lender''"]
  show ?thesis using h by simp
qed

text \<open>
  Claim C8. \<open>login\<close> answers 400 when no stored user has both the email and the role, also
  when the email is stored under another role, and when the user found fails the password
  comparison; it answers with a token exactly when a user with the email and the role is
  found and the comparison succeeds, and the token is signed for that user.
\<close>

theorem login_outcomes:
  "((\<forall>u\<in>set (users s). \<not> (email u = e \<and> role u = r)) \<longrightarrow>
       login cmp sign e pw r s = Inl Validation)
   \<and> (find (\<lambda>u. email u = e \<and> role u = r) (users s) = Some u \<and> \<not> cmp pw (password u) \<longrightarrow>
       login cmp sign e pw r s = Inl Validation)
   \<and> ((\<exists>resp. login cmp sign e pw r s = Inr resp) \<longleftrightarrow>
       (\<exists>v. find (\<lambda>u. email u = e \<and> role u = r) (users s) = Some v \<and> cmp pw (password v)))
   \<and> (find (\<lambda>u. email u = e \<and> role u = r) (users s) = Some u \<and> cmp pw (password u) \<longrightarrow>
       login cmp sign e pw r s =
         Inr \<lparr>token = sign \<lparr>tok_id = user_id u, tok_email = e, tok_role = r\<rparr>,
              user = \<lparr>login_name = name u, login_email = e, login_role = r\<rparr>\<rparr>)"
proof -
  let ?F = "find (\<lambda>u. email u = e \<and> role u = r) (users s)"
  have c1: "login cmp sign e pw r s = Inl Validation"
    if "\<forall>u\<in>set (users s). \<not> (email u = e \<and> role u = r)"
  proof -
    from that have "?F = None" by (simp add: find_None_iff)
    then show ?thesis by (simp add: login_def)
  qed
  have c2: "login cmp sign e pw r s = Inl Validation" if "?F = Some u" and "\<not> cmp pw (password u)"
    using that by (simp add: login_def)
  have c4: "login cmp sign e pw r s =
         Inr \<lparr>token = sign \<lparr>tok_id = user_id v, tok_email = e, tok_role = r\<rparr>,
              user = \<lparr>login_name = name v, login_email = e, login_role = r\<rparr>\<rparr>"
    if "?F = Some v" and "cmp pw (password v)" for v
  proof -
    from find_Some_holds [OF that(1)] have "email v = e" and "role v = r"
      by simp_all
    with that show ?thesis by (simp add: login_def)
  qed
  have c3: "(\<exists>resp. login cmp sign e pw r s = Inr resp) \<longleftrightarrow> (\<exists>v. ?F = Some v \<and> cmp pw (password v))"
  proof (cases ?F)
    case None
    then show ?thesis by (simp add: login_def)
  next
    case (Some v)
    show ?thesis
    proof (cases "cmp pw (password v)")
      case True
      with Some c4 [of v] show ?thesis by simp
    next
      case False
      with Some show ?thesis by (simp add: login_def)
    qed
  qed
  from c1 c2 c3 c4 [of u] show ?thesis by blast
qed

theorem login_outcomes_witness:
  "login (\<lambda>p h. h = ''h'' @ p) tok_email ''bo@x.org'' ''1'' ''lender'' exampleStore = Inl Validation
   \<and> login (\<lambda>p h. h = ''h'' @ p) tok_email ''bo@x.org'' ''2'' ''borrower'' exampleStore = Inl Validation
   \<and> login (\<lambda>p h. h = ''h'' @ p) tok_email ''bo@x.org'' ''1'' ''borrower'' exampleStore
       = Inr \<lparr>token = ''bo@x.org'',
              user = \<lparr>login_name = ''Bo'', login_email = ''bo@x.org'', login_role = ''borrower''\<rparr>\<rparr>"
  using
    login_outcomes [of exampleStore "''bo@x.org''" "''lender''" "\<lambda>p h. h = ''h'' @ p" tok_email "''1''"]
    login_outcomes [of exampleStore "''bo@x.org''" "''borrower''" "\<lambda>p h. h = ''h'' @ p" tok_email "''2''"
      "\<lparr>user_id = 1, name = ''Bo'', email = ''bo@x.org'', password = ''h1'', role = ''borrower''\<rparr>"]
    login_outcomes [of exampleStore "''bo@x.org''" "''borrower''" "\<lambda>p h. h = ''h'' @ p" tok_email "''1''"
      "\<lparr>user_id = 1, name = ''Bo'', email = ''bo@x.org'', password = ''h1'', role = ''borrower''\<rparr>"]
  by (simp add: exampleStore_def exampleUsers_def)

section \<open>The application lifecycle\<close>

text \<open>
  Claim C6. Rejecting an existing application replaces the status of that application, the
  first with the id, and nothing else: the other applications, the offers, the payment
  records and the users are the same, and no payment record is added.
\<close>

theorem reject_changes_status_only:
  assumes "tok_role c = ''lender''"
    and "find (\<lambda>a. app_id a = aid) (loanApplications s) = Some a"
  shows "\<exists>i s'. i < length (loanApplications s) \<and> loanApplications s ! i = a \<and> app_id a = aid \<and>
           (\<forall>j<i. app_id (loanApplications s ! j) \<noteq> aid) \<and>
           setApplicationStatus (Some c) n aid ''rejected'' s
             = Inr (Some (a\<lparr>status := ''rejected''\<rparr>), s') \<and>
           loanApplications s' = (loanApplications s)[i := a\<lparr>status := ''rejected''\<rparr>] \<and>
           users s' = users s \<and> loanOffers s' = loanOffers s \<and> loanPayments s' = loanPayments s"
proof -
  from findOneAndUpdate_first [OF assms(2), of "\<lambda>a. a\<lparr>status := ''rejected''\<rparr>"]
  obtain i where i: "i < length (loanApplications s)" "loanApplications s ! i = a" "app_id a = aid"
    "\<forall>j<i. app_id (loanApplications s ! j) \<noteq> aid"
    "findOneAndUpdate (\<lambda>a. app_id a = aid) (\<lambda>a. a\<lparr>status := ''rejected''\<rparr>) (loanApplications s)
       = (Some (a\<lparr>status := ''rejected''\<rparr>), (loanApplications s)[i := a\<lparr>status := ''rejected''\<rparr>])"
    by blast
  have "setApplicationStatus (Some c) n aid ''rejected'' s
          = Inr (Some (a\<lparr>status := ''rejected''\<rparr>),
                 s\<lparr>loanApplications := (loanApplications s)[i := a\<lparr>status := ''rejected''\<rparr>]\<rparr>)"
    using assms i(5) by (simp add: setApplicationStatus_def authenticate_def)
  with i(1-4) show ?thesis by auto
qed

theorem reject_changes_status_only_witness:
  "tok_role lenderTok = ''lender''
   \<and> find (\<lambda>a. app_id a = 20) (loanApplications exampleStore) = Some exampleApplication
   \<and> setApplicationStatus (Some lenderTok) 30 20 ''rejected'' exampleStore
       = Inr (Some (exampleApplication\<lparr>status := ''rejected''\<rparr>),
              exampleStore\<lparr>loanApplications := [exampleApplication\<lparr>status := ''rejected''\<rparr>]\<rparr>)"
proof -
  have h1: "tok_role lenderTok = ''lender''" by (simp add: lenderTok_def)
  have h2: "find (\<lambda>a. app_id a = 20) (loanApplications exampleStore) = Some exampleApplication"
    by (simp add: exampleStore_def exampleApplication_def)
  from reject_changes_status_only [OF h1 h2, of 30]
  obtain i s' where "i < length (loanApplications exampleStore)"
    and r: "setApplicationStatus (Some lenderTok) 30 20 ''rejected'' exampleStore
       = Inr (Some (exampleApplication\<lparr>status := ''rejected''\<rparr>), s')"
    and a: "loanApplications s' = (loanApplications exampleStore)[i := exampleApplication\<lparr>status := ''rejected''\<rparr>]"
    and f: "users s' = users exampleStore" "loanOffers s' = loanOffers exampleStore"
      "loanPayments s' = loanPayments exampleStore"
    by blast
  then have "i = 0" by (simp add: exampleStore_def)
  with a f have "s' = exampleStore\<lparr>loanApplications := [exampleApplication\<lparr>status := ''rejected''\<rparr>]\<rparr>"
    by (cases s') (simp add: exampleStore_def)
  with r h1 h2 show ?thesis by simp
qed


text \<open>
  An application whose offer id matches no offer cannot be approved: the handler fails
  with 500 before it wrote anything.
\<close>

lemma approve_dangling_offer:
  assumes "tok_role c = ''lender''"
    and "find (\<lambda>a. app_id a = aid) (loanApplications s) = Some a"
    and "find (\<lambda>x. offer_id x = loanOfferId a) (loanOffers s) = None"
  shows "setApplicationStatus (Some c) n aid ''approved'' s = Inl Internal"
  using assms by (simp add: setApplicationStatus_def authenticate_def)




section \<open>Repayments\<close>

lemma recordPayment_no_record:
  "tok_role c = ''borrower'' \<Longrightarrow> find (\<lambda>p. applicationId p = aid) (loanPayments s) = None \<Longrightarrow>
     recordPayment (Some c) now aid amt s = Inr (None, s)"
  by (simp add: recordPayment_def authenticate_def findOneAndUpdate_none)

lemma recordPayment_existing_record:
  assumes "tok_role c = ''borrower''"
    and "find (\<lambda>p. applicationId p = aid) (loanPayments s) = Some p"
  shows "\<exists>s'. recordPayment (Some c) now aid amt s
           = Inr (Some (p\<lparr>amountPaid := amountPaid p + amt,
                           payments := payments p @ [\<lparr>date = now, amount = amt\<rparr>]\<rparr>), s')"
  using assms findOneAndUpdate_fst [of "\<lambda>p. applicationId p = aid"
      "\<lambda>p. p\<lparr>amountPaid := amountPaid p + amt, payments := payments p @ [\<lparr>date = now, amount = amt\<rparr>]\<rparr>"
      "loanPayments s"]
  by (simp add: recordPayment_def authenticate_def case_prod_beta)

text \<open>
  Claim C2. A repayment against an application that has no payment record is answered
  with status 200 and the body \<open>null\<close>, not with 404: the handler sends the result of
  \<open>findOneAndUpdate\<close> unchecked. The store is unchanged.
\<close>

theorem recordPayment_without_record:
  "recordPayment (Some borrowerTok) 5 20 50 exampleStore = Inr (None, exampleStore)
   \<and> recordPayment (Some borrowerTok) 5 20 50 exampleStore \<noteq> Inl NotFound"
  by (simp add: recordPayment_def authenticate_def borrowerTok_def exampleStore_def)

text \<open>
  Claim C9. The answer to a repayment and the store after it are the same for any two
  callers whose token carries the role \<open>borrower\<close>: the handler reads nothing else of the
  token.
\<close>

theorem recordPayment_caller_independent:
  "tok_role c1 = ''borrower'' \<Longrightarrow> tok_role c2 = ''borrower'' \<Longrightarrow>
     recordPayment (Some c1) now aid amt s = recordPayment (Some c2) now aid amt s"
  by (simp add: recordPayment_def authenticate_def)

theorem recordPayment_caller_independent_witness:
  "tok_role borrowerTok = ''borrower'' \<and> tok_role otherBorrowerTok = ''borrower''
   \<and> tok_id borrowerTok \<noteq> tok_id otherBorrowerTok
   \<and> recordPayment (Some borrowerTok) 7 20 50 (exampleStore\<lparr>loanPayments := [freshPayment]\<rparr>)
       = recordPayment (Some otherBorrowerTok) 7 20 50 (exampleStore\<lparr>loanPayments := [freshPayment]\<rparr>)"
proof -
  have h1: "tok_role borrowerTok = ''borrower''" and h2: "tok_role otherBorrowerTok = ''borrower''"
    by (simp_all add: borrowerTok_def otherBorrowerTok_def)
  from recordPayment_caller_independent [OF h1 h2, of 7 20 50 "exampleStore\<lparr>loanPayments := [freshPayment]\<rparr>"]
  show ?thesis using h1 h2 by (simp add: borrowerTok_def otherBorrowerTok_def)
qed

lemma ledgerOk_push:
  "ledgerOk p \<Longrightarrow>
     ledgerOk (p\<lparr>amountPaid := amountPaid p + a, payments := payments p @ [\<lparr>date = d, amount = a\<rparr>]\<rparr>)"
  by (simp add: ledgerOk_def)

lemma ledgerOk_fresh: "ledgerOk \<lparr>payment_id = n, applicationId = aid, amountPaid = 0, payments = []\<rparr>"
  by (simp add: ledgerOk_def)

lemma register_payments: "register h i n e p r s = Inr s' \<Longrightarrow> loanPayments s' = loanPayments s"
  by (auto simp: register_def Let_def split: if_splits option.splits)

lemma createOffer_payments:
  "createOffer t i a r m s = Inr (x, s') \<Longrightarrow> loanPayments s' = loanPayments s"
  by (auto simp: createOffer_def authenticate_def Let_def split: if_splits option.splits)

lemma createApplication_payments:
  "createApplication t i l n m r s = Inr (x, s') \<Longrightarrow> loanPayments s' = loanPayments s"
  by (auto simp: createApplication_def authenticate_def Let_def split: if_splits option.splits)

lemma deleteUser_payments: "deleteUser h c t i s = Inr s' \<Longrightarrow> loanPayments s' = loanPayments s"
  by (auto simp: deleteUser_def authenticate_def split: if_splits option.splits)

lemma setUserRole_payments:
  "setUserRole t i r s = Inr (x, s') \<Longrightarrow> loanPayments s' = loanPayments s"
  by (auto simp: setUserRole_def authenticate_def split: if_splits option.splits prod.splits)

lemma setApplicationStatus_payments:
  "setApplicationStatus t n i st s = Inr (x, s') \<Longrightarrow>
     loanPayments s' = loanPayments s \<or>
     loanPayments s' = loanPayments s @ [\<lparr>payment_id = n, applicationId = i, amountPaid = 0,
                                           payments = []\<rparr>]"
  by (auto simp: setApplicationStatus_def authenticate_def Let_def
      split: if_splits option.splits prod.splits sum.splits)

lemma recordPayment_payments:
  "recordPayment t now i a s = Inr (x, s') \<Longrightarrow>
     loanPayments s' = snd (findOneAndUpdate (\<lambda>p. applicationId p = i)
         (\<lambda>p. p\<lparr>amountPaid := amountPaid p + a,
                 payments := payments p @ [\<lparr>date = now, amount = a\<rparr>]\<rparr>) (loanPayments s))"
  by (auto simp: recordPayment_def authenticate_def split: if_splits option.splits prod.splits)

lemma handle_ledger:
  assumes "\<forall>p\<in>set (loanPayments s). ledgerOk p"
  shows "\<forall>p\<in>set (loanPayments (handle r s)). ledgerOk p"
proof (cases r)
  case (Register h i n e p r)
  with assms show ?thesis by (auto split: sum.splits dest: register_payments)
next
  case (CreateOffer t i a r m)
  with assms show ?thesis
    by (auto simp: stored_def split: sum.splits dest: createOffer_payments)
next
  case (CreateApplication t i l n m r)
  with assms show ?thesis
    by (auto simp: stored_def split: sum.splits dest: createApplication_payments)
next
  case (SetApplicationStatus t n i st)
  show ?thesis
  proof (cases "setApplicationStatus t n i st s")
    case (Inl e)
    with SetApplicationStatus assms show ?thesis by (simp add: stored_def)
  next
    case (Inr res)
    obtain x s' where res: "res = (x, s')" by (cases res)
    from setApplicationStatus_payments [OF Inr [unfolded res]] assms
    have "\<forall>p\<in>set (loanPayments s'). ledgerOk p"
      by (auto simp: ledgerOk_fresh)
    with SetApplicationStatus Inr res show ?thesis by (simp add: stored_def)
  qed
next
  case (RecordPayment t now i a)
  show ?thesis
  proof (cases "recordPayment t now i a s")
    case (Inl e)
    with RecordPayment assms show ?thesis by (simp add: stored_def)
  next
    case (Inr res)
    obtain x s' where res: "res = (x, s')" by (cases res)
    from recordPayment_payments [OF Inr [unfolded res]]
    have eq: "loanPayments s' = snd (findOneAndUpdate (\<lambda>p. applicationId p = i)
         (\<lambda>p. p\<lparr>amountPaid := amountPaid p + a,
                 payments := payments p @ [\<lparr>date = now, amount = a\<rparr>]\<rparr>) (loanPayments s))" .
    have "set (loanPayments s') \<subseteq> set (loanPayments s) \<union>
            (\<lambda>p. p\<lparr>amountPaid := amountPaid p + a,
                    payments := payments p @ [\<lparr>date = now, amount = a\<rparr>]\<rparr>) ` set (loanPayments s)"
      unfolding eq by (rule findOneAndUpdate_set)
    with assms have "\<forall>p\<in>set (loanPayments s'). ledgerOk p"
      using ledgerOk_push by blast
    with RecordPayment Inr res show ?thesis by (simp add: stored_def)
  qed
next
  case (DeleteUser h c t i)
  with assms show ?thesis by (auto split: sum.splits dest: deleteUser_payments)
next
  case (SetUserRole t i r)
  with assms show ?thesis
    by (auto simp: stored_def split: sum.splits dest: setUserRole_payments)
qed

lemma run_ledger:
  "\<forall>p\<in>set (loanPayments s). ledgerOk p \<Longrightarrow> \<forall>p\<in>set (loanPayments (run reqs s)). ledgerOk p"
  unfolding run_def
proof (induction reqs arbitrary: s)
  case Nil
  then show ?case by simp
next
  case (Cons r reqs)
  from handle_ledger [OF Cons.prems] have "\<forall>p\<in>set (loanPayments (handle r s)). ledgerOk p" .
  from Cons.IH [OF this] show ?case by simp
qed

lemma findOneAndUpdate_map_same:
  "(\<And>x. g (f x) = g x) \<Longrightarrow> map g (snd (findOneAndUpdate P f xs)) = map g xs"
  by (induction xs) simp_all

lemma distinct_filter_le_one:
  "distinct (map g xs) \<Longrightarrow> length (filter (\<lambda>p. g p = v) xs) \<le> 1"
proof (induction xs)
  case Nil
  then show ?case by simp
next
  case (Cons x xs)
  show ?case
  proof (cases "g x = v")
    case True
    with Cons.prems have "v \<notin> g ` set xs" by auto
    then have "filter (\<lambda>p. g p = v) xs = []" by (auto simp: filter_empty_conv)
    with True show ?thesis by simp
  next
    case False
    with Cons show ?thesis by simp
  qed
qed

text \<open>
  A payment record is only ever created by an approval that found none for the application,
  so no application has two in a store reached from the empty one.
\<close>

lemma setApplicationStatus_created:
  "setApplicationStatus t n i st s = Inr (x, s') \<Longrightarrow>
     loanPayments s' = loanPayments s \<or>
     find (\<lambda>p. applicationId p = i) (loanPayments s) = None \<and>
     loanPayments s' = loanPayments s @ [\<lparr>payment_id = n, applicationId = i, amountPaid = 0,
                                           payments = []\<rparr>]"
  by (auto simp: setApplicationStatus_def authenticate_def Let_def case_prod_beta
      split: if_splits option.splits sum.splits)

lemma handle_one_record:
  assumes "distinct (map applicationId (loanPayments s))"
  shows "distinct (map applicationId (loanPayments (handle r s)))"
proof (cases r)
  case (Register h i n e p r)
  with assms show ?thesis by (auto split: sum.splits dest: register_payments)
next
  case (CreateOffer t i a r m)
  with assms show ?thesis
    by (auto simp: stored_def split: sum.splits dest: createOffer_payments)
next
  case (CreateApplication t i l n m r)
  with assms show ?thesis
    by (auto simp: stored_def split: sum.splits dest: createApplication_payments)
next
  case (SetApplicationStatus t n i st)
  show ?thesis
  proof (cases "setApplicationStatus t n i st s")
    case (Inl e)
    with SetApplicationStatus assms show ?thesis by (simp add: stored_def)
  next
    case (Inr res)
    obtain x s' where res: "res = (x, s')" by (cases res)
    from setApplicationStatus_created [OF Inr [unfolded res]] assms
    have "distinct (map applicationId (loanPayments s'))"
      by (auto simp: find_None_iff)
    with SetApplicationStatus Inr res show ?thesis by (simp add: stored_def)
  qed
next
  case (RecordPayment t now i a)
  show ?thesis
  proof (cases "recordPayment t now i a s")
    case (Inl e)
    with RecordPayment assms show ?thesis by (simp add: stored_def)
  next
    case (Inr res)
    obtain x s' where res: "res = (x, s')" by (cases res)
    from recordPayment_payments [OF Inr [unfolded res]]
    have "map applicationId (loanPayments s') = map applicationId (loanPayments s)"
      by (simp add: findOneAndUpdate_map_same)
    with RecordPayment Inr res assms show ?thesis by (simp add: stored_def)
  qed
next
  case (DeleteUser h c t i)
  with assms show ?thesis by (auto split: sum.splits dest: deleteUser_payments)
next
  case (SetUserRole t i r)
  with assms show ?thesis
    by (auto simp: stored_def split: sum.splits dest: setUserRole_payments)
qed

lemma run_one_record:
  "length (filter (\<lambda>p. applicationId p = aid) (loanPayments (run reqs emptyStore))) \<le> 1"
proof -
  have "distinct (map applicationId (loanPayments s)) \<Longrightarrow>
          distinct (map applicationId (loanPayments (run reqs s)))" for s :: "'a Store"
    unfolding run_def
  proof (induction reqs arbitrary: s)
    case Nil
    then show ?case by simp
  next
    case (Cons r reqs)
    from Cons.IH [OF handle_one_record [OF Cons.prems]] show ?case by simp
  qed
  from this [of emptyStore] have "distinct (map applicationId (loanPayments (run reqs emptyStore)))"
    by (simp add: emptyStore_def)
  then show ?thesis by (rule distinct_filter_le_one)
qed

lemma recordPayment_sequence:
  assumes "tok_role c = ''borrower''"
  shows "find (\<lambda>p. applicationId p = aid) (loanPayments s) = Some p \<Longrightarrow>
     find (\<lambda>p. applicationId p = aid)
         (loanPayments (run (map (\<lambda>(d, a). RecordPayment (Some c) d aid a) xs) s))
       = Some (p\<lparr>amountPaid := foldl (+) (amountPaid p) (map snd xs),
                 payments := payments p @ map (\<lambda>(d, a). \<lparr>date = d, amount = a\<rparr>) xs\<rparr>)"
proof (induction xs arbitrary: s p)
  case Nil
  then show ?case by (simp add: run_def)
next
  case (Cons x xs)
  obtain d a where x: "x = (d, a)" by (cases x)
  let ?push = "\<lambda>p. p\<lparr>amountPaid := amountPaid p + a, payments := payments p @ [\<lparr>date = d, amount = a\<rparr>]\<rparr>"
  let ?s' = "handle (RecordPayment (Some c) d aid a) s"
  have "loanPayments ?s' = snd (findOneAndUpdate (\<lambda>p. applicationId p = aid) ?push (loanPayments s))"
    using assms by (simp add: stored_def recordPayment_def authenticate_def split: prod.splits)
  then have "find (\<lambda>p. applicationId p = aid) (loanPayments ?s') = Some (?push p)"
    using Cons.prems by (simp add: findOneAndUpdate_find)
  from Cons.IH [OF this] show ?case
    by (simp add: x run_def)
qed

text \<open>
  Claim C4. The ledger invariant (the total of a payment record is the sum of the amounts
  of its entries, added from left to right) is kept by every request that writes to the
  store, so it holds in every store reached from the empty one; and \<open>N\<close> repayments in a
  row against a fresh record leave the sum of the \<open>N\<close> amounts as its total and the \<open>N\<close>
  entries in the order of the calls.
\<close>

theorem ledger_invariant:
  fixes s :: "('n::{zero,plus}) Store"
  shows "((\<forall>p\<in>set (loanPayments s). ledgerOk p) \<longrightarrow>
            (\<forall>p\<in>set (loanPayments (run reqs s)). ledgerOk p))
       \<and> (\<forall>p\<in>set (loanPayments (run reqs (emptyStore :: 'n Store))). ledgerOk p)
       \<and> (tok_role c = ''borrower'' \<and>
            find (\<lambda>p. applicationId p = aid) (loanPayments s) = Some p \<and>
            amountPaid p = 0 \<and> payments p = [] \<longrightarrow>
            find (\<lambda>p. applicationId p = aid)
                (loanPayments (run (map (\<lambda>(d, a). RecordPayment (Some c) d aid a) xs) s))
              = Some (p\<lparr>amountPaid := foldl (+) 0 (map snd xs),
                        payments := map (\<lambda>(d, a). \<lparr>date = d, amount = a\<rparr>) xs\<rparr>))"
proof -
  have empty: "\<forall>p\<in>set (loanPayments (emptyStore :: 'n Store)). ledgerOk p"
    by (simp add: emptyStore_def)
  have fresh: "find (\<lambda>p. applicationId p = aid)
                (loanPayments (run (map (\<lambda>(d, a). RecordPayment (Some c) d aid a) xs) s))
              = Some (p\<lparr>amountPaid := foldl (+) 0 (map snd xs),
                        payments := map (\<lambda>(d, a). \<lparr>date = d, amount = a\<rparr>) xs\<rparr>)"
    if "tok_role c = ''borrower''" and "find (\<lambda>p. applicationId p = aid) (loanPayments s) = Some p"
      and "amountPaid p = 0" and "payments p = []"
    using recordPayment_sequence [OF that(1,2), of xs] that(3,4) by simp
  from run_ledger [of s reqs] run_ledger [OF empty, of reqs] fresh show ?thesis
    by blast
qed

theorem ledger_invariant_witness:
  "loanPayments (run [SetApplicationStatus (Some lenderTok) 30 20 ''approved'',
                      RecordPayment (Some borrowerTok) 1 20 50,
                      RecordPayment (Some otherBorrowerTok) 2 20 70] exampleStore)
     = [\<lparr>payment_id = 30, applicationId = 20, amountPaid = 120,
         payments = [\<lparr>date = 1, amount = 50\<rparr>, \<lparr>date = 2, amount = 70\<rparr>]\<rparr>]
   \<and> ledgerOk \<lparr>payment_id = 30, applicationId = 20, amountPaid = 120 :: int,
         payments = [\<lparr>date = 1, amount = 50\<rparr>, \<lparr>date = 2, amount = 70\<rparr>]\<rparr>
   \<and> tok_role borrowerTok = ''borrower''
   \<and> find (\<lambda>p. applicationId p = 20) (loanPayments (exampleStore\<lparr>loanPayments := [freshPayment]\<rparr>))
       = Some freshPayment
   \<and> amountPaid freshPayment = 0 \<and> payments freshPayment = []
   \<and> find (\<lambda>p. applicationId p = 20)
        (loanPayments (run (map (\<lambda>(d, a). RecordPayment (Some borrowerTok) d 20 a) [(1, 50), (2, 70)])
           (exampleStore\<lparr>loanPayments := [freshPayment]\<rparr>)))
       = Some \<lparr>payment_id = 30, applicationId = 20, amountPaid = 120,
               payments = [\<lparr>date = 1, amount = 50\<rparr>, \<lparr>date = 2, amount = 70\<rparr>]\<rparr>"
proof -
  let ?reqs = "[SetApplicationStatus (Some lenderTok) 30 20 ''approved'',
                RecordPayment (Some borrowerTok) 1 20 50,
                RecordPayment (Some otherBorrowerTok) 2 20 (70::int)]"
  have ev: "loanPayments (run ?reqs exampleStore)
     = [\<lparr>payment_id = 30, applicationId = 20, amountPaid = 120,
         payments = [\<lparr>date = 1, amount = 50\<rparr>, \<lparr>date = 2, amount = 70\<rparr>]\<rparr>]"
    by (simp add: run_def stored_def setApplicationStatus_def recordPayment_def authenticate_def
        lenderTok_def borrowerTok_def otherBorrowerTok_def exampleStore_def exampleOffer_def
        exampleApplication_def)
  have h0: "\<forall>p\<in>set (loanPayments exampleStore). ledgerOk p"
    by (simp add: exampleStore_def)
  have h1: "tok_role borrowerTok = ''borrower''" by (simp add: borrowerTok_def)
  have h2: "find (\<lambda>p. applicationId p = 20) (loanPayments (exampleStore\<lparr>loanPayments := [freshPayment]\<rparr>))
       = Some freshPayment"
    by (simp add: freshPayment_def)
  have h3: "amountPaid freshPayment = 0" "payments freshPayment = []"
    by (simp_all add: freshPayment_def)
  from ledger_invariant [of exampleStore ?reqs] h0 ev
  have inv: "ledgerOk \<lparr>payment_id = 30, applicationId = 20, amountPaid = 120 :: int,
         payments = [\<lparr>date = 1, amount = 50\<rparr>, \<lparr>date = 2, amount = 70\<rparr>]\<rparr>"
    by simp
  from ledger_invariant [of "exampleStore\<lparr>loanPayments := [freshPayment]\<rparr>" "[]" borrowerTok 20
      freshPayment "[(1, 50), (2, 70)]"] h1 h2 h3
  have seq: "find (\<lambda>p. applicationId p = 20)
        (loanPayments (run (map (\<lambda>(d, a). RecordPayment (Some borrowerTok) d 20 a) [(1, 50), (2, 70)])
           (exampleStore\<lparr>loanPayments := [freshPayment]\<rparr>)))
       = Some \<lparr>payment_id = 30, applicationId = 20, amountPaid = 120,
               payments = [\<lparr>date = 1, amount = 50\<rparr>, \<lparr>date = 2, amount = 70\<rparr>]\<rparr>"
    by (simp add: freshPayment_def)
  from ev inv h1 h2 h3 seq show ?thesis by simp
qed

section \<open>Admin views\<close>

lemma withoutPassword_hide: "withoutPassword (hidePassword u) = withoutPassword u"
  by (simp add: withoutPassword_def hidePassword_def)

lemma views_of_hidden: "map withoutPassword (map hidePassword us) = map withoutPassword us"
  by (simp add: withoutPassword_hide)

lemma filter_role_hidden:
  "map hidePassword (filter (\<lambda>u. role u = r) us) = filter (\<lambda>u. role u = r) (map hidePassword us)"
  by (induction us) (simp_all add: hidePassword_def)

lemma find_id_hidden:
  "find (\<lambda>u. user_id u = i) (map hidePassword us)
     = map_option hidePassword (find (\<lambda>u. user_id u = i) us)"
  by (rule find_map_commute) (simp add: hidePassword_def)

lemma setUserRole_response:
  assumes "tok_role c = ''admin''"
  shows "map_sum id fst (setUserRole (Some c) i r s)
       = Inr (map_option (\<lambda>u. withoutPassword (u\<lparr>role := r\<rparr>))
                (map_option hidePassword (find (\<lambda>u. user_id u = i) (users s))))"
proof -
  obtain x1 x2 where fu:
    "findOneAndUpdate (\<lambda>u. user_id u = i) (\<lambda>u. u\<lparr>role := r\<rparr>) (users s) = (x1, x2)"
    by (cases "findOneAndUpdate (\<lambda>u. user_id u = i) (\<lambda>u. u\<lparr>role := r\<rparr>) (users s)")
  from findOneAndUpdate_fst [of "\<lambda>u. user_id u = i" "\<lambda>u. u\<lparr>role := r\<rparr>" "users s"] fu
  have "x1 = map_option (\<lambda>u. u\<lparr>role := r\<rparr>) (find (\<lambda>u. user_id u = i) (users s))"
    by simp
  with assms fu show ?thesis
    by (simp add: setUserRole_def authenticate_def option.map_comp o_def withoutPassword_def
        hidePassword_def)
qed

text \<open>
  Claim C10. The admin's user views carry no password: on two stores that differ at most
  in the stored password hashes, the list of users, the list of borrowers with their
  applications, payments and score, and the response to a role change are the same, and
  the two stores still differ at most in the hashes after the role change.
\<close>

theorem admin_views_hide_passwords:
  assumes "samePublicData s t"
  shows "listUsers tok s = listUsers tok t \<and> listBorrowers tok s = listBorrowers tok t \<and>
         map_sum id fst (setUserRole tok i r s) = map_sum id fst (setUserRole tok i r t) \<and>
         samePublicData (handle (SetUserRole tok i r) s) (handle (SetUserRole tok i r) t)"
proof -
  from assms have hid: "map hidePassword (users s) = map hidePassword (users t)"
    and rest: "loanOffers s = loanOffers t" "loanApplications s = loanApplications t"
      "loanPayments s = loanPayments t"
    by (simp_all add: samePublicData_def)
  have all: "map withoutPassword (users s) = map withoutPassword (users t)"
    using views_of_hidden [of "users s"] views_of_hidden [of "users t"] hid by simp
  have borrowers: "map withoutPassword (filter (\<lambda>u. role u = ''borrower'') (users s))
      = map withoutPassword (filter (\<lambda>u. role u = ''borrower'') (users t))"
    using views_of_hidden [of "filter (\<lambda>u. role u = ''borrower'') (users s)"]
      views_of_hidden [of "filter (\<lambda>u. role u = ''borrower'') (users t)"] hid
    by (simp add: filter_role_hidden)
  have found: "map_option hidePassword (find (\<lambda>u. user_id u = i) (users s))
      = map_option hidePassword (find (\<lambda>u. user_id u = i) (users t))"
    using find_id_hidden [of i "users s"] find_id_hidden [of i "users t"] hid by simp
  have lu: "listUsers tok s = listUsers tok t"
    by (simp add: listUsers_def all split: sum.splits)
  have lb: "listBorrowers tok s = listBorrowers tok t"
    by (simp add: listBorrowers_def borrowers rest split: sum.splits)
  have sr: "map_sum id fst (setUserRole tok i r s) = map_sum id fst (setUserRole tok i r t)"
  proof (cases tok)
    case None
    then show ?thesis by (simp add: setUserRole_def authenticate_def)
  next
    case (Some c)
    show ?thesis
    proof (cases "tok_role c = ''admin''")
      case True
      with Some found show ?thesis by (simp add: setUserRole_response)
    next
      case False
      with Some show ?thesis by (simp add: setUserRole_def authenticate_def)
    qed
  qed
  have upd: "map hidePassword (snd (findOneAndUpdate (\<lambda>u. user_id u = i) (\<lambda>u. u\<lparr>role := r\<rparr>) us))
      = snd (findOneAndUpdate (\<lambda>u. user_id u = i) (\<lambda>u. u\<lparr>role := r\<rparr>) (map hidePassword us))"
    for us
    by (rule findOneAndUpdate_map) (simp_all add: hidePassword_def)
  have st: "samePublicData (handle (SetUserRole tok i r) s) (handle (SetUserRole tok i r) t)"
  proof (cases tok)
    case None
    with assms show ?thesis by (simp add: setUserRole_def authenticate_def stored_def)
  next
    case (Some c)
    show ?thesis
    proof (cases "tok_role c = ''admin''")
      case True
      with Some hid rest show ?thesis
        by (simp add: setUserRole_def authenticate_def stored_def samePublicData_def upd
            case_prod_beta)
    next
      case False
      with Some assms show ?thesis by (simp add: setUserRole_def authenticate_def stored_def)
    qed
  qed
  from lu lb sr st show ?thesis by simp
qed

theorem admin_views_hide_passwords_witness:
  "samePublicData exampleStore (exampleStore\<lparr>users := exampleUsers ''other''\<rparr>)
   \<and> users exampleStore \<noteq> users (exampleStore\<lparr>users := exampleUsers ''other''\<rparr>)
   \<and> listUsers (Some adminTok) exampleStore
       = listUsers (Some adminTok) (exampleStore\<lparr>users := exampleUsers ''other''\<rparr>)
   \<and> listBorrowers (Some adminTok) exampleStore
       = listBorrowers (Some adminTok) (exampleStore\<lparr>users := exampleUsers ''other''\<rparr>)
   \<and> map_sum id fst (setUserRole (Some adminTok) 1 ''lender'' exampleStore)
       = map_sum id fst (setUserRole (Some adminTok) 1 ''lender''
           (exampleStore\<lparr>users := exampleUsers ''other''\<rparr>))"
proof -
  have h: "samePublicData exampleStore (exampleStore\<lparr>users := exampleUsers ''other''\<rparr>)"
    by (simp add: samePublicData_def exampleStore_def exampleUsers_def hidePassword_def)
  have d: "users exampleStore \<noteq> users (exampleStore\<lparr>users := exampleUsers ''other''\<rparr>)"
    by (simp add: exampleStore_def exampleUsers_def)
  from admin_views_hide_passwords [OF h, of "Some adminTok" 1 "''lender''"] h d
  show ?thesis by simp
qed

end
